theory Spec2Isabelle
  imports Complex_Main
begin

section \<open>The JSON-RPC client of plugin/core/rpc.py\<close>

text \<open>
  The development embeds the class \<open>Client\<close> of \<open>plugin/core/rpc.py\<close>: the state of one
  instance is a record, every method takes the state and returns the new state, the
  effects it had on its collaborators (log lines, messages handed to the transport,
  callbacks invoked) and either the exception it raised or its return value.
\<close>

subsection \<open>Python values\<close>

text \<open>
  A Python float: a finite value, an infinity (the flag is the sign, \<open>True\<close> for the
  negative one) or a NaN. \<open>json.loads\<close> produces all three.
\<close>

datatype pyfloat = Finite rat | Infinity bool | NaN

text \<open>
  What \<open>json.loads\<close> returns: \<open>None\<close>, a bool, an int, a float, a str, a list or a dict
  with str keys. \<open>JNull\<close> is Python's \<open>None\<close>. A dict is the list of its items; a key is
  looked up with \<open>map_of\<close>.
\<close>

datatype json =
    JNull
  | JBool bool
  | JInt int
  | JFloat pyfloat
  | JString string
  | JArray "json list"
  | JObject "(string \<times> json) list"

text \<open>
  The exceptions of the model are instances of Python's class \<open>Exception\<close>, the class
  the two \<open>except Exception\<close> clauses of rpc.py catch. \<open>OSError\<close> stands for the class
  that Python 3 also calls \<open>IOError\<close>; \<open>JSONDecodeError\<close> is a subclass of
  \<open>ValueError\<close>. \<open>Raised n\<close> is an exception of a class named \<open>n\<close> of the callback's
  own.
\<close>

datatype exn =
    JSONDecodeError
  | RecursionError
  | OSError
  | TypeError
  | ValueError
  | OverflowError
  | KeyError
  | AttributeError
  | Raised string

text \<open>\<open>isinstance(e, IOError)\<close>: what \<open>except IOError\<close> catches.\<close>

fun is_IOError :: "exn \<Rightarrow> bool" where
  "is_IOError OSError = True"
| "is_IOError _ = False"

text \<open>
  What the client depends on of Python's library, whose code is not part of the
  repository: \<open>json.loads\<close> on a str (\<open>Inl\<close> is the exception it raises), \<open>int\<close> on a
  str (\<open>None\<close> is \<open>ValueError\<close>), and \<open>threading.TIMEOUT_MAX\<close>, the platform's longest
  timeout of a blocking \<open>acquire\<close>.
\<close>

record env =
  json_loads :: "string \<Rightarrow> exn + json"
  int_of_str :: "string \<Rightarrow> int option"
  timeout_max :: rat

text \<open>\<open>int(v)\<close> for a decoded value.\<close>

fun py_int :: "env \<Rightarrow> json \<Rightarrow> exn + int" where
  "py_int env (JInt n) = Inr n"
| "py_int env (JBool b) = Inr (if b then 1 else 0)"
| "py_int env (JFloat (Finite r)) = Inr (if r < 0 then \<lceil>r\<rceil> else \<lfloor>r\<rfloor>)"
| "py_int env (JFloat (Infinity s)) = Inl OverflowError"
| "py_int env (JFloat NaN) = Inl ValueError"
| "py_int env (JString s) = (case int_of_str env s of None \<Rightarrow> Inl ValueError | Some n \<Rightarrow> Inr n)"
| "py_int env JNull = Inl TypeError"
| "py_int env (JArray xs) = Inl TypeError"
| "py_int env (JObject kvs) = Inl TypeError"

text \<open>\<open>bool(v)\<close>, the truth value \<open>if v:\<close> tests.\<close>

fun truthy :: "json \<Rightarrow> bool" where
  "truthy JNull = False"
| "truthy (JBool b) = b"
| "truthy (JInt n) = (n \<noteq> 0)"
| "truthy (JFloat (Finite r)) = (r \<noteq> 0)"
| "truthy (JFloat (Infinity s)) = True"
| "truthy (JFloat NaN) = True"
| "truthy (JString s) = (s \<noteq> [])"
| "truthy (JArray xs) = (xs \<noteq> [])"
| "truthy (JObject kvs) = (kvs \<noteq> [])"

fun startswith :: "string \<Rightarrow> string \<Rightarrow> bool" where
  "startswith s [] = True"
| "startswith [] (p # ps) = False"
| "startswith (c # s) (p # ps) = (c = p \<and> startswith s ps)"

text \<open>\<open>sub in s\<close> for two strs.\<close>

fun contains :: "string \<Rightarrow> string \<Rightarrow> bool" where
  "contains [] sub = (sub = [])"
| "contains (c # s) sub = (startswith (c # s) sub \<or> contains s sub)"

text \<open>
  \<open>key in v\<close> for a str \<open>key\<close>: a key of a dict, an element of a list, a substring of a
  str; every other value is not iterable and raises \<open>TypeError\<close>.
\<close>

fun py_in :: "string \<Rightarrow> json \<Rightarrow> exn + bool" where
  "py_in key (JObject kvs) = Inr (map_of kvs key \<noteq> None)"
| "py_in key (JArray xs) = Inr (JString key \<in> set xs)"
| "py_in key (JString s) = Inr (contains s key)"
| "py_in key v = Inl TypeError"

text \<open>\<open>v.get(key, dflt)\<close>: only a dict has the method.\<close>

fun py_get :: "json \<Rightarrow> string \<Rightarrow> json \<Rightarrow> exn + json" where
  "py_get (JObject kvs) key dflt =
     Inr (case map_of kvs key of None \<Rightarrow> dflt | Some v \<Rightarrow> v)"
| "py_get v key dflt = Inl AttributeError"

text \<open>
  \<open>v[key]\<close> for a str \<open>key\<close>: \<open>KeyError\<close> on a dict without the key, \<open>TypeError\<close> on
  every value that is not a dict.
\<close>

fun py_getitem :: "json \<Rightarrow> string \<Rightarrow> exn + json" where
  "py_getitem (JObject kvs) key =
     (case map_of kvs key of None \<Rightarrow> Inl KeyError | Some v \<Rightarrow> Inr v)"
| "py_getitem v key = Inl TypeError"

subsection \<open>Collaborators\<close>

text \<open>
  A callable handed to the client by its owner: its name identifies it in the trace, and
  \<open>cb_run\<close> says, for the arguments of a call, whether the call returns (\<open>None\<close>) or
  raises.
\<close>

datatype callback = Callback (cb_name: string) (cb_run: "json list \<Rightarrow> exn option")

text \<open>The value objects of \<open>.protocol\<close>; only \<open>method\<close> and \<open>to_payload\<close> are used.\<close>

datatype request = Request (request_method: string) (params: json)

datatype notification = Notification (notification_method: string) (notification_params: json)

datatype response = Response (response_id: json) (response_result: json)

text \<open>
  The dict a value object's \<open>to_payload\<close> builds, kept symbolic: \<open>RequestPayload r i\<close> is
  \<open>r.to_payload(i)\<close>.
\<close>

datatype payload =
    RequestPayload request int
  | NotificationPayload notification
  | ResponsePayload response

text \<open>The two variants of \<open>.transports\<close>; the client only tests the reference for \<open>None\<close>.\<close>

datatype transport = StdioTransport | TCPTransport

text \<open>
  An argument of \<open>debug\<close>: a value, or the str \<open>prefix + str(v)\<close>.
\<close>

datatype logarg = Arg json | StrCat string json

text \<open>What a method does to the world outside the client's own fields, in order.\<close>

datatype event =
    Debug "logarg list"
  | ExceptionLog string exn
  | TransportStart
  | TransportSend payload
  | Invoke string "json list"
  | CvarNotify

record settings =
  log_payloads :: bool
  log_stderr :: bool

subsection \<open>The state of a client\<close>

text \<open>
  The fields \<open>__init__\<close> creates. \<open>error_display_handler = None\<close> is the default
  \<open>lambda msg: debug(msg)\<close>. The lock and the condition variable have no state of their
  own in a sequential model.
\<close>

record client =
  transport :: "transport option"
  request_id :: int
  response_handlers :: "int \<rightharpoonup> (callback option \<times> callback option)"
  request_handlers :: "string \<rightharpoonup> callback"
  notification_handlers :: "string \<rightharpoonup> callback"
  sync_request_results :: "int \<rightharpoonup> json"
  exiting :: bool
  crash_handler :: "callback option"
  transport_fail_handler :: "callback option"
  error_display_handler :: "callback option"
  settings :: settings

text \<open>The new state, the effects, and the exception raised or the value returned.\<close>

type_synonym 'a result = "client \<times> event list \<times> (exn + 'a)"

definition Client :: "transport \<Rightarrow> settings \<Rightarrow> client \<times> event list" where
  "Client t s =
     (\<lparr>transport = Some t, request_id = 0, response_handlers = Map.empty,
       request_handlers = Map.empty, notification_handlers = Map.empty,
       sync_request_results = Map.empty, exiting = False, crash_handler = None,
       transport_fail_handler = None, error_display_handler = None, settings = s\<rparr>,
      [TransportStart])"

text \<open>Calling a callback: the call is recorded, and it returns or raises.\<close>

definition invoke :: "callback \<Rightarrow> json list \<Rightarrow> event list \<times> (exn + unit)" where
  "invoke h args =
     ([Invoke (cb_name h) args], case cb_run h args of None \<Rightarrow> Inr () | Some e \<Rightarrow> Inl e)"

text \<open>\<open>self._error_display_handler(msg)\<close>.\<close>

definition display :: "client \<Rightarrow> json \<Rightarrow> event list \<times> (exn + unit)" where
  "display c msg =
     (case error_display_handler c of
        None \<Rightarrow> ([Debug [Arg msg]], Inr ())
      | Some h \<Rightarrow> invoke h [msg])"

subsection \<open>Outbound paths\<close>

definition send_payload :: "client \<Rightarrow> payload \<Rightarrow> event list" where
  "send_payload c p = (if transport c \<noteq> None then [TransportSend p] else [])"

definition send_request ::
  "client \<Rightarrow> request \<Rightarrow> callback \<Rightarrow> callback option \<Rightarrow> unit result" where
  "send_request c request handler error_handler =
     (let c1 = c\<lparr>request_id := request_id c + 1\<rparr> in
      if transport c1 \<noteq> None then
        (let c2 = c1\<lparr>response_handlers :=
                      (response_handlers c1)(request_id c1 \<mapsto> (Some handler, error_handler))\<rparr>
         in (c2,
             Debug [Arg (JString ('' --> '' @ request_method request))]
               # send_payload c2 (RequestPayload request (request_id c2)),
             Inr ()))
      else
        (let ev = [Debug [Arg (JString ''unable to send''), Arg (JString (request_method request))]] in
         case error_handler of
           None \<Rightarrow> (c1, ev, Inr ())
         | Some eh \<Rightarrow> (c1, ev @ fst (invoke eh [JNull]), snd (invoke eh [JNull]))))"

definition send_notification :: "client \<Rightarrow> notification \<Rightarrow> unit result" where
  "send_notification c n =
     (if transport c \<noteq> None then
        (c,
         Debug [Arg (JString ('' --> '' @ notification_method n))]
           # send_payload c (NotificationPayload n),
         Inr ())
      else
        (c, [Debug [Arg (JString ''unable to send''), Arg (JString (notification_method n))]],
         Inr ()))"

definition send_response :: "client \<Rightarrow> response \<Rightarrow> unit result" where
  "send_response c r = (c, send_payload c (ResponsePayload r), Inr ())"

text \<open>
  Modelled from the spec: \<open>Notification.exit()\<close> of \<open>.protocol\<close>, which is not part of
  the sources; the spec calls it the exit notification.
\<close>

definition Notification_exit :: notification where
  "Notification_exit = Notification ''exit'' JNull"

definition exit :: "client \<Rightarrow> unit result" where
  "exit c = send_notification (c\<lparr>exiting := True\<rparr>) Notification_exit"

definition set_crash_handler :: "client \<Rightarrow> callback \<Rightarrow> client" where
  "set_crash_handler c h = c\<lparr>crash_handler := Some h\<rparr>"

definition set_error_display_handler :: "client \<Rightarrow> callback \<Rightarrow> client" where
  "set_error_display_handler c h = c\<lparr>error_display_handler := Some h\<rparr>"

definition set_transport_failure_handler :: "client \<Rightarrow> callback \<Rightarrow> client" where
  "set_transport_failure_handler c h = c\<lparr>transport_fail_handler := Some h\<rparr>"

definition on_request :: "client \<Rightarrow> string \<Rightarrow> callback \<Rightarrow> client" where
  "on_request c m h =
     c\<lparr>request_handlers := (request_handlers c)(m \<mapsto> h)\<rparr>"

definition on_notification :: "client \<Rightarrow> string \<Rightarrow> callback \<Rightarrow> client" where
  "on_notification c m h =
     c\<lparr>notification_handlers := (notification_handlers c)(m \<mapsto> h)\<rparr>"

subsection \<open>Transport closure\<close>

definition handle_transport_failure :: "client \<Rightarrow> unit result" where
  "handle_transport_failure c =
     (let c1 = c\<lparr>transport := None\<rparr>;
          ev0 = [Debug [Arg (JString ''transport failed'')]];
          (ev1, r1) = (case transport_fail_handler c1 of
                         None \<Rightarrow> ([], Inr ())
                       | Some h \<Rightarrow> invoke h [])
      in case r1 of
           Inl e \<Rightarrow> (c1, ev0 @ ev1, Inl e)
         | Inr u \<Rightarrow>
             (case crash_handler c1 of
                None \<Rightarrow> (c1, ev0 @ ev1, Inr ())
              | Some h \<Rightarrow> (c1, ev0 @ ev1 @ fst (invoke h []), snd (invoke h []))))"

definition on_transport_closed :: "client \<Rightarrow> unit result" where
  "on_transport_closed c =
     (let (ev0, r0) = display c (JString ''Communication to server closed, exiting'') in
      case r0 of
        Inl e \<Rightarrow> (c, ev0, Inl e)
      | Inr u \<Rightarrow>
          if \<not> exiting c then
            (case handle_transport_failure c of (c1, ev1, r1) \<Rightarrow> (c1, ev0 @ ev1, r1))
          else (c, ev0, Inr ()))"

subsection \<open>Inbound path\<close>

definition response_handler :: "env \<Rightarrow> client \<Rightarrow> json \<Rightarrow> unit result" where
  "response_handler env c response =
     (case py_getitem response ''id'' of
        Inl e \<Rightarrow> (c, [], Inl e)
      | Inr idv \<Rightarrow>
     (case py_int env idv of
        Inl e \<Rightarrow> (c, [], Inl e)
      | Inr rid \<Rightarrow>
     (case response of
        JObject kvs \<Rightarrow>
          (let ev0 = (if log_payloads (settings c)
                      then [Debug [StrCat ''     ''
                              (case map_of kvs ''result'' of None \<Rightarrow> JNull | Some v \<Rightarrow> v)]]
                      else []);
               (handler, error_handler) =
                  (case response_handlers c rid of None \<Rightarrow> (None, None) | Some p \<Rightarrow> p);
               c1 = c\<lparr>response_handlers := (response_handlers c)(rid := None)\<rparr>
           in case (map_of kvs ''result'', map_of kvs ''error'') of
                (Some res, None) \<Rightarrow>
                  (case handler of
                     Some h \<Rightarrow> (c1, ev0 @ fst (invoke h [res]), snd (invoke h [res]))
                   | None \<Rightarrow>
                       (c1\<lparr>sync_request_results := (sync_request_results c1)(rid \<mapsto> res)\<rparr>,
                        ev0 @ [CvarNotify], Inr ()))
              | (None, Some err) \<Rightarrow>
                  (let ev1 = ev0 @ (if log_payloads (settings c)
                                    then [Debug [StrCat ''ERR: '' err]] else [])
                   in case error_handler of
                        Some eh \<Rightarrow> (c1, ev1 @ fst (invoke eh [err]), snd (invoke eh [err]))
                      | None \<Rightarrow>
                          (case py_get err ''message'' JNull of
                             Inl e \<Rightarrow> (c1, ev1, Inl e)
                           | Inr msg \<Rightarrow> (c1, ev1 @ fst (display c1 msg), snd (display c1 msg))))
              | _ \<Rightarrow>
                  (c1, ev0 @ [Debug [Arg (JString ''invalid response payload''), Arg response]],
                   Inr ()))
      | _ \<Rightarrow> (c, [], Inl TypeError))))"

definition handle ::
  "client \<Rightarrow> string \<Rightarrow> json \<Rightarrow> (string \<rightharpoonup> callback) \<Rightarrow> json list \<Rightarrow> unit result" where
  "handle c typestr message handlers args =
     (case py_get message ''method'' (JString []) of
        Inl e \<Rightarrow> (c, [], Inl e)
      | Inr mv \<Rightarrow>
     (case py_get message ''params'' JNull of
        Inl e \<Rightarrow> (c, [], Inl e)
      | Inr ps \<Rightarrow>
     (case mv of
        JString m \<Rightarrow>
          (let ev0 = (if m \<noteq> ''window/logMessage''
                      then Debug [Arg (JString (''<--  '' @ m))]
                             # (if log_payloads (settings c) \<and> truthy ps
                                then [Debug [StrCat ''     '' ps]] else [])
                      else [])
           in case handlers m of
                Some h \<Rightarrow>
                  (case snd (invoke h (ps # args)) of
                     Inl err \<Rightarrow>
                       (c, ev0 @ fst (invoke h (ps # args))
                             @ [ExceptionLog (''Error handling '' @ typestr @ '' '' @ m) err],
                        Inr ())
                   | Inr u \<Rightarrow> (c, ev0 @ fst (invoke h (ps # args)), Inr ()))
              | None \<Rightarrow>
                  (c, ev0 @ [Debug [Arg (JString (''Unhandled '' @ typestr)), Arg (JString m)]],
                   Inr ()))
      | _ \<Rightarrow> (c, [], Inl TypeError))))"

text \<open>The body of the second \<open>try\<close> of \<open>receive_payload\<close>.\<close>

definition route :: "env \<Rightarrow> client \<Rightarrow> json \<Rightarrow> unit result" where
  "route env c payload =
     (case py_in ''method'' payload of
        Inl e \<Rightarrow> (c, [], Inl e)
      | Inr True \<Rightarrow>
          (case py_in ''id'' payload of
             Inl e \<Rightarrow> (c, [], Inl e)
           | Inr True \<Rightarrow>
               (case py_get payload ''id'' JNull of
                  Inl e \<Rightarrow> (c, [], Inl e)
                | Inr i \<Rightarrow> handle c ''request'' payload (request_handlers c) [i])
           | Inr False \<Rightarrow> handle c ''notification'' payload (notification_handlers c) [])
      | Inr False \<Rightarrow>
          (case py_in ''id'' payload of
             Inl e \<Rightarrow> (c, [], Inl e)
           | Inr True \<Rightarrow> response_handler env c payload
           | Inr False \<Rightarrow>
               (c, [Debug [Arg (JString ''Unknown payload type: ''), Arg payload]], Inr ())))"

definition receive_payload :: "env \<Rightarrow> client \<Rightarrow> string \<Rightarrow> unit result" where
  "receive_payload env c message =
     (case json_loads env message of
        Inl err \<Rightarrow>
          if is_IOError err
          then (c, [ExceptionLog (''got a non-JSON payload: '' @ message) err], Inr ())
          else (c, [], Inl err)
      | Inr payload \<Rightarrow>
          (case route env c payload of
             (c1, ev, Inl err) \<Rightarrow>
               (c1, ev @ [ExceptionLog ''Error handling server payload'' err], Inr ())
           | (c1, ev, Inr u) \<Rightarrow> (c1, ev, Inr ())))"

text \<open>
  The delivery thread handing messages to \<open>receive_payload\<close> one after the other. An
  exception that leaves \<open>receive_payload\<close> is the delivery thread's, not the client's.
\<close>

fun deliver :: "env \<Rightarrow> client \<Rightarrow> string list \<Rightarrow> client \<times> event list" where
  "deliver env c [] = (c, [])"
| "deliver env c (m # ms) =
     (case receive_payload env c m of
        (c1, ev1, r) \<Rightarrow> (case deliver env c1 ms of (c2, ev2) \<Rightarrow> (c2, ev1 @ ev2)))"

subsection \<open>The synchronous request\<close>

text \<open>
  \<open>Condition.wait_for(predicate, timeout)\<close> of Python's \<open>threading\<close>, for a float
  timeout, when the predicate is false at the first test. It computes
  \<open>endtime = now + timeout\<close> and calls \<open>wait(timeout)\<close>, which blocks in
  \<open>acquire(True, timeout)\<close> when \<open>timeout > 0\<close> and polls with \<open>acquire(False)\<close>
  otherwise; it goes round again until the predicate holds or
  \<open>endtime - now <= 0\<close>.
  \<^item> \<open>TooLarge\<close>: a timeout above \<open>TIMEOUT_MAX\<close>, or \<open>inf\<close>; \<open>acquire\<close> raises
    \<open>OverflowError\<close>.
  \<^item> \<open>Unbounded\<close>: \<open>nan\<close>; neither \<open>timeout > 0\<close> nor \<open>endtime - now <= 0\<close> ever
    holds, so the loop polls until the predicate holds and never times out.
  \<^item> \<open>Bounded\<close>: every other timeout (zero, a negative one and \<open>-inf\<close> too); the
    wait ends when the predicate holds or the time is up.
\<close>

datatype timeout_kind = Bounded | TooLarge | Unbounded

fun classify_timeout :: "env \<Rightarrow> pyfloat \<Rightarrow> timeout_kind" where
  "classify_timeout env (Finite r) = (if timeout_max env < r then TooLarge else Bounded)"
| "classify_timeout env (Infinity negative) = (if negative then Bounded else TooLarge)"
| "classify_timeout env NaN = Unbounded"

definition DEFAULT_SYNC_REQUEST_TIMEOUT :: pyfloat where
  "DEFAULT_SYNC_REQUEST_TIMEOUT = Finite 1"

text \<open>
  The wait of \<open>execute_request\<close> for the id \<open>rid\<close>: \<open>arrivals\<close> are the messages the
  delivery thread handles while the caller waits, all there will be when the wait is
  unbounded. The outcome is the exception raised, or what \<open>wait_for\<close> returns (the
  predicate's last value), or \<open>None\<close> when the wait never ends.
\<close>

definition wait_for ::
  "env \<Rightarrow> client \<Rightarrow> int \<Rightarrow> pyfloat \<Rightarrow> string list
     \<Rightarrow> client \<times> event list \<times> (exn + bool) option" where
  "wait_for env c rid timeout arrivals =
     (if sync_request_results c rid \<noteq> None then (c, [], Some (Inr True))
      else
        (case classify_timeout env timeout of
           TooLarge \<Rightarrow> (c, [], Some (Inl OverflowError))
         | Bounded \<Rightarrow>
             (let (c1, ev) = deliver env c arrivals
              in (c1, ev, Some (Inr (sync_request_results c1 rid \<noteq> None))))
         | Unbounded \<Rightarrow>
             (let (c1, ev) = deliver env c arrivals
              in (c1, ev,
                  if sync_request_results c1 rid \<noteq> None then Some (Inr True) else None))))"

text \<open>
  \<open>execute_request\<close>: \<open>early\<close> are the messages the delivery thread handles between
  the send and the caller's first test of the predicate, \<open>arrivals\<close> those it handles
  during the wait. After the wait \<open>pop\<close> raises \<open>KeyError\<close> when the result is not in
  the table, and the method catches \<open>KeyError\<close> and nothing else. The outcome is
  \<open>None\<close> when the call never returns.
\<close>

definition execute_request ::
  "env \<Rightarrow> client \<Rightarrow> request \<Rightarrow> pyfloat \<Rightarrow> string list \<Rightarrow> string list
     \<Rightarrow> client \<times> event list \<times> (exn + json) option" where
  "execute_request env c request timeout early arrivals =
     (if transport c = None then
        (c, [Debug [Arg (JString ''unable to send''), Arg (JString (request_method request))]],
         Some (Inr JNull))
      else
        (let c1 = c\<lparr>request_id := request_id c + 1\<rparr>;
             rid = request_id c1;
             ev1 = Debug [Arg (JString ('' ==> '' @ request_method request))]
                     # send_payload c1 (RequestPayload request rid);
             (c2, ev2) = deliver env c1 early;
             (c3, ev3, w) = wait_for env c2 rid timeout arrivals;
             timed_out = [Debug [Arg (JString ''timeout on''),
                                 Arg (JString (request_method request))]]
         in case w of
              None \<Rightarrow> (c3, ev1 @ ev2 @ ev3, None)
            | Some (Inl e) \<Rightarrow>
                if e = KeyError then (c3, ev1 @ ev2 @ ev3 @ timed_out, Some (Inr JNull))
                else (c3, ev1 @ ev2 @ ev3, Some (Inl e))
            | Some (Inr found) \<Rightarrow>
                (case sync_request_results c3 rid of
                   None \<Rightarrow> (c3, ev1 @ ev2 @ ev3 @ timed_out, Some (Inr JNull))
                 | Some res \<Rightarrow>
                     (c3\<lparr>sync_request_results := (sync_request_results c3)(rid := None)\<rparr>,
                      ev1 @ ev2 @ ev3, Some (Inr res)))))"

text \<open>
  A message answers the id \<open>rid\<close> when it decodes to a dict whose \<open>id\<close> converts to
  \<open>rid\<close>: the only messages after which \<open>rid\<close> can be in the sync-result table.
\<close>

definition answers :: "env \<Rightarrow> string \<Rightarrow> int \<Rightarrow> bool" where
  "answers env m rid =
     (case json_loads env m of
        Inr (JObject kvs) \<Rightarrow>
          (case map_of kvs ''id'' of Some idv \<Rightarrow> py_int env idv = Inr rid | None \<Rightarrow> False)
      | _ \<Rightarrow> False)"

subsection \<open>Sequences of calls\<close>

text \<open>
  One call on the client, by a caller thread or by the transport.
  \<open>ExecuteRequest r t early ms\<close>
  is \<open>execute_request(r, t)\<close> with what the delivery thread handles meanwhile. A call
  runs from its first statement to its return before the next call begins.
\<close>

datatype op =
    SendRequest request callback "callback option"
  | ExecuteRequest request pyfloat "string list" "string list"
  | SendNotification notification
  | SendResponse response
  | Exit
  | SetCrashHandler callback
  | SetErrorDisplayHandler callback
  | SetTransportFailureHandler callback
  | OnRequest string callback
  | OnNotification string callback
  | ReceivePayload string
  | OnTransportClosed

text \<open>
  The state and the effects a call leaves behind; an exception it raises goes to its
  caller and the client lives on in the state the call left (as it does when a call
  never returns).
\<close>

fun step :: "env \<Rightarrow> client \<Rightarrow> op \<Rightarrow> client \<times> event list" where
  "step env c (SendRequest r h eh) = (case send_request c r h eh of (c1, ev, x) \<Rightarrow> (c1, ev))"
| "step env c (ExecuteRequest r t early ms) =
     (case execute_request env c r t early ms of (c1, ev, x) \<Rightarrow> (c1, ev))"
| "step env c (SendNotification n) = (case send_notification c n of (c1, ev, x) \<Rightarrow> (c1, ev))"
| "step env c (SendResponse r) = (case send_response c r of (c1, ev, x) \<Rightarrow> (c1, ev))"
| "step env c Exit = (case exit c of (c1, ev, x) \<Rightarrow> (c1, ev))"
| "step env c (SetCrashHandler h) = (set_crash_handler c h, [])"
| "step env c (SetErrorDisplayHandler h) = (set_error_display_handler c h, [])"
| "step env c (SetTransportFailureHandler h) = (set_transport_failure_handler c h, [])"
| "step env c (OnRequest m h) = (on_request c m h, [])"
| "step env c (OnNotification m h) = (on_notification c m h, [])"
| "step env c (ReceivePayload m) = (case receive_payload env c m of (c1, ev, x) \<Rightarrow> (c1, ev))"
| "step env c OnTransportClosed = (case on_transport_closed c of (c1, ev, x) \<Rightarrow> (c1, ev))"

fun run :: "env \<Rightarrow> client \<Rightarrow> op list \<Rightarrow> client \<times> event list" where
  "run env c [] = (c, [])"
| "run env c (x # xs) =
     (case step env c x of
        (c1, ev1) \<Rightarrow> (case run env c1 xs of (c2, ev2) \<Rightarrow> (c2, ev1 @ ev2)))"

text \<open>
  The ids the calls of a sequence allocate: a call allocates an id when it moves the
  counter, and the id is the counter's new value (\<open>self.request_id += 1\<close>, then
  \<open>self.request_id\<close> is the id).
\<close>

fun assigned_ids :: "env \<Rightarrow> client \<Rightarrow> op list \<Rightarrow> int list" where
  "assigned_ids env c [] = []"
| "assigned_ids env c (x # xs) =
     (let c1 = fst (step env c x)
      in (if request_id c1 = request_id c then [] else [request_id c1])
           @ assigned_ids env c1 xs)"

subsection \<open>Overlapping calls of send_request\<close>

text \<open>
  \<open>send_request\<close> takes no lock, so two threads can be inside it at once. Here it is
  one statement at a time: a call in progress is its arguments and the statement it
  is at, and a schedule says which call runs its next statement. (The interpreter
  can switch threads inside a statement too; the schedules here switch only between
  statements.)
\<close>

datatype send_pc =
    AtIncrement
  | AtTest
  | AtLogSend
  | AtRecord
  | AtSend
  | AtLogUnable
  | AtErrorHandler
  | AtReturn

record send_call =
  call_request :: request
  call_handler :: callback
  call_error_handler :: "callback option"
  call_pc :: send_pc

definition start_send_request :: "request \<Rightarrow> callback \<Rightarrow> callback option \<Rightarrow> send_call" where
  "start_send_request r h eh =
     \<lparr>call_request = r, call_handler = h, call_error_handler = eh, call_pc = AtIncrement\<rparr>"

definition send_request_statement :: "client \<Rightarrow> send_call \<Rightarrow> client \<times> event list \<times> send_call" where
  "send_request_statement c k =
     (case call_pc k of
        AtIncrement \<Rightarrow> (c\<lparr>request_id := request_id c + 1\<rparr>, [], k\<lparr>call_pc := AtTest\<rparr>)
      | AtTest \<Rightarrow>
          (c, [], k\<lparr>call_pc := (if transport c \<noteq> None then AtLogSend else AtLogUnable)\<rparr>)
      | AtLogSend \<Rightarrow>
          (c, [Debug [Arg (JString ('' --> '' @ request_method (call_request k)))]],
           k\<lparr>call_pc := AtRecord\<rparr>)
      | AtRecord \<Rightarrow>
          (c\<lparr>response_handlers :=
               (response_handlers c)(request_id c \<mapsto> (Some (call_handler k), call_error_handler k))\<rparr>,
           [], k\<lparr>call_pc := AtSend\<rparr>)
      | AtSend \<Rightarrow>
          (c, send_payload c (RequestPayload (call_request k) (request_id c)),
           k\<lparr>call_pc := AtReturn\<rparr>)
      | AtLogUnable \<Rightarrow>
          (c, [Debug [Arg (JString ''unable to send''),
                      Arg (JString (request_method (call_request k)))]],
           k\<lparr>call_pc := AtErrorHandler\<rparr>)
      | AtErrorHandler \<Rightarrow>
          (c, (case call_error_handler k of None \<Rightarrow> [] | Some eh \<Rightarrow> fst (invoke eh [JNull])),
           k\<lparr>call_pc := AtReturn\<rparr>)
      | AtReturn \<Rightarrow> (c, [], k))"

text \<open>The calls \<open>ks\<close> in progress, run by the schedule: \<open>i\<close> lets call \<open>i\<close> run one statement.\<close>

fun interleave ::
  "client \<Rightarrow> send_call list \<Rightarrow> nat list \<Rightarrow> client \<times> event list \<times> send_call list" where
  "interleave c ks [] = (c, [], ks)"
| "interleave c ks (i # sched) =
     (if i < length ks then
        (case send_request_statement c (ks ! i) of
           (c1, ev1, k1) \<Rightarrow>
             (case interleave c1 (ks[i := k1]) sched of
                (c2, ev2, ks2) \<Rightarrow> (c2, ev1 @ ev2, ks2)))
      else interleave c ks sched)"

subsection \<open>Reading a trace\<close>

text \<open>The payloads handed to \<open>transport.send\<close>.\<close>

fun sends :: "event list \<Rightarrow> payload list" where
  "sends [] = []"
| "sends (TransportSend p # evs) = p # sends evs"
| "sends (e # evs) = sends evs"

text \<open>The ids of the requests among them.\<close>

fun request_ids :: "payload list \<Rightarrow> int list" where
  "request_ids [] = []"
| "request_ids (RequestPayload r i # ps) = i # request_ids ps"
| "request_ids (p # ps) = request_ids ps"

text \<open>The callbacks called, with their arguments.\<close>

fun invocations :: "event list \<Rightarrow> (string \<times> json list) list" where
  "invocations [] = []"
| "invocations (Invoke n args # evs) = (n, args) # invocations evs"
| "invocations (e # evs) = invocations evs"

text \<open>What went to the log: the calls of \<open>debug\<close> and \<open>exception_log\<close>.\<close>

fun logged :: "event list \<Rightarrow> event list" where
  "logged [] = []"
| "logged (Debug args # evs) = Debug args # logged evs"
| "logged (ExceptionLog msg e # evs) = ExceptionLog msg e # logged evs"
| "logged (e # evs) = logged evs"

subsection \<open>Sample inputs\<close>

text \<open>
  \<open>json.loads\<close> and \<open>int\<close> on the strs of the examples below; \<open>json.loads\<close> rejects
  \<open>not json\<close> with a \<open>JSONDecodeError\<close>. \<open>TIMEOUT_MAX\<close> is the value of a 64-bit
  Linux.
\<close>

definition sample_loads :: "string \<Rightarrow> exn + json" where
  \<open>sample_loads s =
     (if s = ''{"id": 2, "result": true}''
      then Inr (JObject [(''id'', JInt 2), (''result'', JBool True)])
      else if s = ''{"id": 1, "result": 5}''
      then Inr (JObject [(''id'', JInt 1), (''result'', JInt 5)])
      else Inl JSONDecodeError)\<close>

definition sample_int_of_str :: "string \<Rightarrow> int option" where
  "sample_int_of_str s = (if s = ''7'' then Some 7 else None)"

definition sample_env :: env where
  "sample_env =
     \<lparr>json_loads = sample_loads, int_of_str = sample_int_of_str,
      timeout_max = 9223372036\<rparr>"

definition sample_settings :: settings where
  "sample_settings = \<lparr>log_payloads = False, log_stderr = False\<rparr>"

text \<open>A client as \<open>Client(transport, settings)\<close> builds it, before any traffic.\<close>

definition new_client :: client where
  "new_client = fst (Client StdioTransport sample_settings)"

text \<open>A callback that returns, and one that raises.\<close>

definition returning :: "string \<Rightarrow> callback" where
  "returning n = Callback n (\<lambda>args. None)"

definition raising :: "string \<Rightarrow> callback" where
  "raising n = Callback n (\<lambda>args. Some (Raised ''RuntimeError''))"

text \<open>A client whose owner has registered both failure callbacks.\<close>

definition watched_client :: client where
  "watched_client =
     set_crash_handler
       (set_transport_failure_handler new_client (returning ''terminate'')) (returning ''crash'')"

text \<open>A client with one asynchronous request pending, under id 1.\<close>

definition pending_client :: client where
  "pending_client =
     fst (send_request new_client (Request ''initialize'' JNull) (returning ''on_result'') None)"

text \<open>A client whose handler for a server request raises.\<close>

definition configured_client :: client where
  "configured_client =
     on_request new_client ''workspace/configuration'' (raising ''configuration'')"

text \<open>A server request for that handler, as decoded, carrying the id \<open>i\<close>.\<close>

definition configuration_request :: "int \<Rightarrow> json" where
  "configuration_request i =
     JObject [(''id'', JInt i), (''method'', JString ''workspace/configuration'')]"

text \<open>A client whose transport-failure callback raises.\<close>

definition failing_client :: client where
  "failing_client =
     set_crash_handler
       (set_transport_failure_handler new_client (raising ''terminate'')) (returning ''crash'')"

text \<open>
  A client to which the server has sent a result under id 1 before any request was
  made.
\<close>

definition stale_client :: client where
  \<open>stale_client = fst (receive_payload sample_env new_client ''{"id": 1, "result": 5}'')\<close>

section \<open>Properties\<close>

subsection \<open>Reading a trace piecewise\<close>

lemma sends_append: "sends (xs @ ys) = sends xs @ sends ys"
  by (induction xs rule: sends.induct) simp_all

lemma invocations_append: "invocations (xs @ ys) = invocations xs @ invocations ys"
  by (induction xs rule: invocations.induct) simp_all

lemma logged_append: "logged (xs @ ys) = logged xs @ logged ys"
  by (induction xs rule: logged.induct) simp_all

lemma request_ids_append: "request_ids (xs @ ys) = request_ids xs @ request_ids ys"
  by (induction xs rule: request_ids.induct) simp_all

lemma sends_invoke: "sends (fst (invoke h args)) = []"
  by (simp add: invoke_def)

lemma sends_display: "sends (fst (display c msg)) = []"
  by (simp add: display_def invoke_def split: option.splits)

subsection \<open>A message that does not decode\<close>

text \<open>
  C1. The claim is that a message that fails to decode is logged and dropped and that
  nothing is raised into the delivery thread. The code does leave the state alone, but
  its \<open>except IOError\<close> clause does not catch what \<open>json.loads\<close> raises
  (\<open>JSONDecodeError\<close>, a \<open>ValueError\<close>): whenever the decoder raises anything that is
  not an \<open>IOError\<close>, \<open>receive_payload\<close> logs nothing and the exception leaves it.
\<close>

theorem receive_payload_decode_failure:
  assumes "json_loads env message = Inl err" and "\<not> is_IOError err"
  shows "receive_payload env c message = (c, [], Inl err)"
  using assms by (simp add: receive_payload_def)

theorem receive_payload_decode_failure_witness:
  "json_loads sample_env ''not json'' = Inl JSONDecodeError \<and> \<not> is_IOError JSONDecodeError
   \<and> receive_payload sample_env new_client ''not json'' = (new_client, [], Inl JSONDecodeError)"
  using receive_payload_decode_failure [of sample_env "''not json''" JSONDecodeError new_client]
  by (simp add: sample_env_def sample_loads_def)

subsection \<open>Sending without a transport\<close>

text \<open>
  C7. The claim is that \<open>send_request\<close> without a transport returns without raising.
  The code calls the supplied error handler with nothing around the call: when that
  handler raises, the exception leaves \<open>send_request\<close>.
\<close>

theorem send_request_no_transport_counterexample:
  "transport (new_client\<lparr>transport := None\<rparr>) = None
   \<and> snd (snd (send_request (new_client\<lparr>transport := None\<rparr>)
        (Request ''initialize'' JNull) (returning ''h'') (Some (raising ''eh'')))) =
       Inl (Raised ''RuntimeError'')"
  by (simp add: send_request_def Let_def invoke_def raising_def)

text \<open>
  C7, as the code has it. When \<open>send_request\<close> is called while no transport is attached,
  nothing is handed to the transport, the error handler is called exactly once with
  \<open>None\<close> if one was supplied and no callback is called otherwise, and the call returns
  without raising when no handler was supplied or the handler's call returns; when
  the handler's call raises, that exception leaves \<open>send_request\<close>.
\<close>

theorem send_request_no_transport:
  assumes "transport c = None"
  shows "sends (fst (snd (send_request c r h eh))) = []
       \<and> invocations (fst (snd (send_request c r h eh))) =
           (case eh of None \<Rightarrow> [] | Some h' \<Rightarrow> [(cb_name h', [JNull])])
       \<and> snd (snd (send_request c r h eh)) =
           (case eh of
              None \<Rightarrow> Inr ()
            | Some h' \<Rightarrow> (case cb_run h' [JNull] of None \<Rightarrow> Inr () | Some e \<Rightarrow> Inl e))"
  using assms
  by (auto simp add: send_request_def Let_def sends_append invocations_append invoke_def
           split: option.splits)

theorem send_request_no_transport_witness:
  "transport (new_client\<lparr>transport := None\<rparr>) = None
   \<and> sends (fst (snd (send_request (new_client\<lparr>transport := None\<rparr>)
         (Request ''initialize'' JNull) (returning ''h'') (Some (returning ''eh''))))) = []
   \<and> invocations (fst (snd (send_request (new_client\<lparr>transport := None\<rparr>)
         (Request ''initialize'' JNull) (returning ''h'') (Some (returning ''eh''))))) =
         [(''eh'', [JNull])]
   \<and> snd (snd (send_request (new_client\<lparr>transport := None\<rparr>)
         (Request ''initialize'' JNull) (returning ''h'') (Some (returning ''eh'')))) = Inr ()"
  using send_request_no_transport [of "new_client\<lparr>transport := None\<rparr>"
          "Request ''initialize'' JNull" "returning ''h''" "Some (returning ''eh'')"]
  by (simp add: returning_def)

text \<open>
  C10. Without a transport \<open>send_request\<close> still moves the id counter by one and records
  no pending entry and sends nothing, so the id is consumed; \<open>execute_request\<close> returns
  \<open>None\<close> at once, with the state (the counter too) as it was and nothing sent.
\<close>

theorem no_transport_id_consumption:
  assumes "transport c = None"
  shows "request_id (fst (send_request c r h eh)) = request_id c + 1
       \<and> response_handlers (fst (send_request c r h eh)) = response_handlers c
       \<and> sends (fst (snd (send_request c r h eh))) = []
       \<and> execute_request env c r t early ms =
           (c, [Debug [Arg (JString ''unable to send''), Arg (JString (request_method r))]],
            Some (Inr JNull))"
  using assms
  by (simp add: send_request_def execute_request_def Let_def sends_append sends_invoke
           split: option.splits)

theorem no_transport_id_consumption_witness:
  "transport (new_client\<lparr>transport := None\<rparr>) = None
   \<and> request_id (fst (send_request (new_client\<lparr>transport := None\<rparr>)
         (Request ''initialize'' JNull) (returning ''h'') None)) = 1
   \<and> response_handlers (fst (send_request (new_client\<lparr>transport := None\<rparr>)
         (Request ''initialize'' JNull) (returning ''h'') None)) = Map.empty
   \<and> request_id (fst (execute_request sample_env (new_client\<lparr>transport := None\<rparr>)
         (Request ''initialize'' JNull) DEFAULT_SYNC_REQUEST_TIMEOUT [] [])) = 0
   \<and> snd (snd (execute_request sample_env (new_client\<lparr>transport := None\<rparr>)
         (Request ''initialize'' JNull) DEFAULT_SYNC_REQUEST_TIMEOUT [] [])) = Some (Inr JNull)"
  using no_transport_id_consumption [of "new_client\<lparr>transport := None\<rparr>"
          "Request ''initialize'' JNull" "returning ''h''" None sample_env
          DEFAULT_SYNC_REQUEST_TIMEOUT "[]" "[]"]
  by (simp add: new_client_def Client_def)

subsection \<open>The transport closes\<close>

text \<open>
  C3. The claim is that on a close with \<open>exiting\<close> false the transport-failure handler
  and then the crash handler each fire exactly once. The code calls the three
  callbacks one after the other with nothing around the calls: when the registered
  transport-failure handler raises, the crash handler is never called, and when the
  error-display handler raises, neither is.
\<close>

theorem on_transport_closed_handlers_counterexample:
  "\<not> exiting failing_client
   \<and> crash_handler failing_client = Some (returning ''crash'')
   \<and> invocations (fst (snd (on_transport_closed failing_client))) = [(''terminate'', [])]
   \<and> snd (snd (on_transport_closed failing_client)) = Inl (Raised ''RuntimeError'')
   \<and> \<not> exiting (set_error_display_handler watched_client (raising ''show''))
   \<and> invocations (fst (snd (on_transport_closed
        (set_error_display_handler watched_client (raising ''show''))))) =
       [(''show'', [JString ''Communication to server closed, exiting''])]"
  by (simp add: failing_client_def watched_client_def new_client_def Client_def
        set_crash_handler_def set_transport_failure_handler_def set_error_display_handler_def
        on_transport_closed_def handle_transport_failure_def display_def invoke_def
        raising_def returning_def Let_def)

text \<open>
  C3, as the code has it. When the transport signals close and \<open>exiting\<close> is true,
  \<open>on_transport_closed\<close> does nothing beyond telling the error-display handler:
  neither the transport-failure handler nor the crash handler is called. When
  \<open>exiting\<close> is false and the error-display handler and the registered
  transport-failure handler return, the registered transport-failure handler is
  called once and then the registered crash handler once, and the call returns
  unless the crash handler's call raises. When the registered transport-failure
  handler raises, it has been called once, the crash handler is not called and the
  exception leaves \<open>on_transport_closed\<close>; in both cases the transport reference is
  then \<open>None\<close>. When the error-display handler raises, nothing else is called and
  the exception leaves \<open>on_transport_closed\<close>, with the state unchanged.
\<close>

theorem on_transport_closed_handlers:
  "(exiting c \<longrightarrow>
      on_transport_closed c =
        (c, fst (display c (JString ''Communication to server closed, exiting'')),
         snd (display c (JString ''Communication to server closed, exiting''))))
   \<and> (\<not> exiting c
        \<and> snd (display c (JString ''Communication to server closed, exiting'')) = Inr ()
        \<and> transport_fail_handler c = Some tf \<and> cb_run tf [] = None
        \<and> crash_handler c = Some cr \<longrightarrow>
      on_transport_closed c =
        (c\<lparr>transport := None\<rparr>,
         fst (display c (JString ''Communication to server closed, exiting''))
           @ [Debug [Arg (JString ''transport failed'')], Invoke (cb_name tf) [],
              Invoke (cb_name cr) []],
         (case cb_run cr [] of None \<Rightarrow> Inr () | Some e' \<Rightarrow> Inl e')))
   \<and> (\<not> exiting c
        \<and> snd (display c (JString ''Communication to server closed, exiting'')) = Inr ()
        \<and> transport_fail_handler c = Some tf \<and> cb_run tf [] = Some e \<longrightarrow>
      on_transport_closed c =
        (c\<lparr>transport := None\<rparr>,
         fst (display c (JString ''Communication to server closed, exiting''))
           @ [Debug [Arg (JString ''transport failed'')], Invoke (cb_name tf) []],
         Inl e))
   \<and> (snd (display c (JString ''Communication to server closed, exiting'')) = Inl e \<longrightarrow>
      on_transport_closed c =
        (c, fst (display c (JString ''Communication to server closed, exiting'')), Inl e))"
  by (auto simp add: on_transport_closed_def handle_transport_failure_def Let_def invoke_def
        case_prod_beta prod_eq_iff split: sum.splits option.splits)

theorem on_transport_closed_handlers_witness:
  "exiting (fst (exit watched_client))
   \<and> invocations (fst (snd (on_transport_closed (fst (exit watched_client))))) = []
   \<and> \<not> exiting watched_client
   \<and> snd (display watched_client (JString ''Communication to server closed, exiting'')) = Inr ()
   \<and> transport_fail_handler watched_client = Some (returning ''terminate'')
   \<and> cb_run (returning ''terminate'') [] = None
   \<and> crash_handler watched_client = Some (returning ''crash'')
   \<and> invocations (fst (snd (on_transport_closed watched_client))) =
       [(''terminate'', []), (''crash'', [])]
   \<and> transport_fail_handler failing_client = Some (raising ''terminate'')
   \<and> cb_run (raising ''terminate'') [] = Some (Raised ''RuntimeError'')
   \<and> snd (snd (on_transport_closed failing_client)) = Inl (Raised ''RuntimeError'')
   \<and> snd (display (set_error_display_handler watched_client (raising ''show''))
        (JString ''Communication to server closed, exiting'')) = Inl (Raised ''RuntimeError'')
   \<and> fst (on_transport_closed (set_error_display_handler watched_client (raising ''show''))) =
       set_error_display_handler watched_client (raising ''show'')"
  using on_transport_closed_handlers
          [of "fst (exit watched_client)" "returning ''terminate''" "returning ''crash''"
              "Raised ''RuntimeError''"]
        on_transport_closed_handlers
          [of watched_client "returning ''terminate''" "returning ''crash''"
              "Raised ''RuntimeError''"]
        on_transport_closed_handlers
          [of failing_client "raising ''terminate''" "returning ''crash''"
              "Raised ''RuntimeError''"]
        on_transport_closed_handlers
          [of "set_error_display_handler watched_client (raising ''show'')"
              "returning ''terminate''" "returning ''crash''" "Raised ''RuntimeError''"]
  by (simp add: watched_client_def failing_client_def new_client_def Client_def exit_def
        send_notification_def set_crash_handler_def set_transport_failure_handler_def
        set_error_display_handler_def returning_def raising_def display_def invoke_def)

text \<open>
  C8. The claim is that \<open>on_transport_closed\<close> detaches the transport whether or not
  \<open>exiting\<close> is true. The code detaches it in \<open>handle_transport_failure\<close>, which it
  calls only when \<open>exiting\<close> is false. After \<open>exit()\<close> and the close signal the
  reference is still attached, and a later \<open>send_request\<close> hands its payload to the
  transport and does not call its error handler.
\<close>

theorem on_transport_closed_exiting_counterexample:
  "exiting (fst (exit new_client))
   \<and> transport (fst (on_transport_closed (fst (exit new_client)))) = Some StdioTransport
   \<and> sends (fst (snd (send_request (fst (on_transport_closed (fst (exit new_client))))
        (Request ''shutdown'' JNull) (returning ''h'') (Some (returning ''eh''))))) =
       [RequestPayload (Request ''shutdown'' JNull) 1]
   \<and> invocations (fst (snd (send_request (fst (on_transport_closed (fst (exit new_client))))
        (Request ''shutdown'' JNull) (returning ''h'') (Some (returning ''eh''))))) = []"
  by (simp add: new_client_def Client_def exit_def send_notification_def
        on_transport_closed_def display_def send_request_def send_payload_def Let_def)

subsection \<open>What a message can and cannot change\<close>

lemma response_handler_frame:
  "transport (fst (response_handler env c r)) = transport c
   \<and> request_id (fst (response_handler env c r)) = request_id c
   \<and> sends (fst (snd (response_handler env c r))) = []"
  by (simp add: response_handler_def Let_def sends_append sends_invoke sends_display
        split: sum.splits json.splits option.splits prod.splits)

lemma handle_frame:
  "fst (handle c typestr message handlers args) = c
   \<and> sends (fst (snd (handle c typestr message handlers args))) = []"
  by (simp add: handle_def Let_def sends_append sends_invoke
        split: sum.splits json.splits option.splits)

lemma route_frame:
  "transport (fst (route env c p)) = transport c
   \<and> request_id (fst (route env c p)) = request_id c
   \<and> sends (fst (snd (route env c p))) = []"
  by (simp add: route_def handle_frame response_handler_frame
        split: sum.splits bool.splits)

lemma receive_payload_frame:
  "transport (fst (receive_payload env c m)) = transport c
   \<and> request_id (fst (receive_payload env c m)) = request_id c
   \<and> sends (fst (snd (receive_payload env c m))) = []"
proof (cases "json_loads env m")
  case (Inl e)
  then show ?thesis by (simp add: receive_payload_def)
next
  case (Inr p)
  obtain c1 ev r where rt: "route env c p = (c1, ev, r)"
    by (cases "route env c p") auto
  from route_frame [of env c p] rt
  have "transport c1 = transport c \<and> request_id c1 = request_id c \<and> sends ev = []"
    by simp
  with Inr rt show ?thesis
    by (cases r) (simp_all add: receive_payload_def sends_append)
qed

lemma deliver_frame:
  "transport (fst (deliver env c ms)) = transport c
   \<and> request_id (fst (deliver env c ms)) = request_id c
   \<and> sends (snd (deliver env c ms)) = []"
proof (induction ms arbitrary: c)
  case Nil
  show ?case by simp
next
  case (Cons m ms)
  obtain c1 ev1 r where rp: "receive_payload env c m = (c1, ev1, r)"
    by (cases "receive_payload env c m") auto
  obtain c2 ev2 where dl: "deliver env c1 ms = (c2, ev2)"
    by (cases "deliver env c1 ms") auto
  from receive_payload_frame [of env c m] rp
  have a: "transport c1 = transport c \<and> request_id c1 = request_id c \<and> sends ev1 = []"
    by simp
  from Cons.IH [of c1] dl
  have b: "transport c2 = transport c1 \<and> request_id c2 = request_id c1 \<and> sends ev2 = []"
    by simp
  from a b rp dl show ?case by (simp add: sends_append)
qed

lemma wait_for_frame:
  "transport (fst (wait_for env c rid t ms)) = transport c
   \<and> request_id (fst (wait_for env c rid t ms)) = request_id c
   \<and> sends (fst (snd (wait_for env c rid t ms))) = []"
  by (simp add: wait_for_def deliver_frame case_prod_beta split: timeout_kind.splits)

lemma execute_request_frame:
  "transport (fst (execute_request env c r t early ms)) = transport c
   \<and> request_id (fst (execute_request env c r t early ms)) =
       (if transport c = None then request_id c else request_id c + 1)
   \<and> sends (fst (snd (execute_request env c r t early ms))) =
       (if transport c = None then [] else [RequestPayload r (request_id c + 1)])"
  by (simp add: execute_request_def Let_def case_prod_beta send_payload_def sends_append
        deliver_frame wait_for_frame split: option.splits sum.splits)

lemma on_transport_closed_frame:
  "request_id (fst (on_transport_closed c)) = request_id c
   \<and> sends (fst (snd (on_transport_closed c))) = []
   \<and> (transport c = None \<longrightarrow> transport (fst (on_transport_closed c)) = None)"
  by (simp add: on_transport_closed_def handle_transport_failure_def Let_def sends_append
        sends_invoke sends_display case_prod_beta
        split: sum.splits option.splits)

text \<open>No method attaches a transport: once the reference is \<open>None\<close> nothing is sent.\<close>

lemma step_detached:
  assumes "transport c = None"
  shows "transport (fst (step env c x)) = None \<and> sends (snd (step env c x)) = []"
proof (cases x)
  case (SendRequest r h eh)
  with assms show ?thesis
    by (simp add: send_request_def Let_def sends_append sends_invoke split: option.splits)
next
  case (ExecuteRequest r t early ms)
  with assms show ?thesis by (simp add: execute_request_def)
next
  case (ReceivePayload m)
  with assms receive_payload_frame [of env c m] show ?thesis
    by (simp add: case_prod_beta)
next
  case OnTransportClosed
  with assms on_transport_closed_frame [of c] show ?thesis
    by (simp add: case_prod_beta)
qed (use assms in \<open>simp_all add: send_notification_def send_response_def send_payload_def
      exit_def set_crash_handler_def set_error_display_handler_def
      set_transport_failure_handler_def on_request_def on_notification_def\<close>)

lemma run_detached:
  "transport c = None \<Longrightarrow>
     transport (fst (run env c xs)) = None \<and> sends (snd (run env c xs)) = []"
proof (induction xs arbitrary: c)
  case Nil
  then show ?case by simp
next
  case (Cons x xs)
  obtain c1 ev1 where st: "step env c x = (c1, ev1)" by (cases "step env c x") auto
  obtain c2 ev2 where rn: "run env c1 xs = (c2, ev2)" by (cases "run env c1 xs") auto
  from step_detached [OF Cons.prems, of env x] st
  have a: "transport c1 = None \<and> sends ev1 = []" by simp
  from Cons.IH [of c1] a rn have "transport c2 = None \<and> sends ev2 = []" by simp
  with a st rn show ?case by (simp add: sends_append)
qed

text \<open>
  C8, as the code has it. When the transport signals close while \<open>exiting\<close> is false
  (and the error-display handler returns), \<open>on_transport_closed\<close> sets the transport
  reference to \<open>None\<close>, and whatever is called on the client afterwards hands nothing
  to a transport. When \<open>exiting\<close> is true the call leaves the whole state, the
  transport reference included, as it was.
\<close>

theorem on_transport_closed_detaches:
  "(\<not> exiting c
      \<and> snd (display c (JString ''Communication to server closed, exiting'')) = Inr ()
      \<longrightarrow> transport (fst (on_transport_closed c)) = None
        \<and> sends (snd (run env (fst (on_transport_closed c)) xs)) = [])
   \<and> (exiting c \<longrightarrow> fst (on_transport_closed c) = c)"
proof (intro conjI impI)
  assume h: "\<not> exiting c
      \<and> snd (display c (JString ''Communication to server closed, exiting'')) = Inr ()"
  then show t: "transport (fst (on_transport_closed c)) = None"
    by (simp add: on_transport_closed_def handle_transport_failure_def Let_def
          case_prod_beta split: sum.splits option.splits)
  from run_detached [OF t, of env xs]
  show "sends (snd (run env (fst (on_transport_closed c)) xs)) = []" by simp
next
  assume "exiting c"
  then show "fst (on_transport_closed c) = c"
    by (simp add: on_transport_closed_def case_prod_beta split: sum.splits)
qed

theorem on_transport_closed_detaches_witness:
  "\<not> exiting new_client
   \<and> snd (display new_client (JString ''Communication to server closed, exiting'')) = Inr ()
   \<and> transport (fst (on_transport_closed new_client)) = None
   \<and> sends (snd (run sample_env (fst (on_transport_closed new_client))
        [SendRequest (Request ''shutdown'' JNull) (returning ''h'') None,
         SendNotification Notification_exit])) = []
   \<and> exiting (fst (exit new_client))
   \<and> fst (on_transport_closed (fst (exit new_client))) = fst (exit new_client)"
  using on_transport_closed_detaches [of new_client sample_env
          "[SendRequest (Request ''shutdown'' JNull) (returning ''h'') None,
            SendNotification Notification_exit]"]
        on_transport_closed_detaches [of "fst (exit new_client)" sample_env "[]"]
  by (simp add: new_client_def Client_def display_def exit_def send_notification_def)

subsection \<open>Request ids\<close>

text \<open>
  A call leaves the counter where it was or one further; a request it hands to the
  transport carries the counter's new value.
\<close>

lemma step_ids:
  "request_id c \<le> request_id (fst (step env c x))
   \<and> (request_ids (sends (snd (step env c x))) = []
      \<or> request_ids (sends (snd (step env c x))) = [request_id (fst (step env c x))]
        \<and> request_id c < request_id (fst (step env c x)))"
proof (cases x)
  case (SendRequest r h eh)
  then show ?thesis
    by (simp add: send_request_def send_payload_def Let_def sends_append sends_invoke
          split: option.splits)
next
  case (ExecuteRequest r t early ms)
  with execute_request_frame [of env c r t early ms] show ?thesis
    by (simp add: case_prod_beta)
next
  case (ReceivePayload m)
  with receive_payload_frame [of env c m] show ?thesis
    by (simp add: case_prod_beta)
next
  case OnTransportClosed
  with on_transport_closed_frame [of c] show ?thesis
    by (simp add: case_prod_beta)
qed (simp_all add: send_notification_def send_response_def send_payload_def
      exit_def set_crash_handler_def set_error_display_handler_def
      set_transport_failure_handler_def on_request_def on_notification_def)

lemma assigned_ids_increase:
  "sorted_wrt (<) (request_id c # assigned_ids env c xs)"
proof (induction xs arbitrary: c)
  case Nil
  show ?case by simp
next
  case (Cons x xs)
  from step_ids [of c env x] have le: "request_id c \<le> request_id (fst (step env c x))"
    by simp
  from Cons.IH [of "fst (step env c x)"]
  have "sorted_wrt (<)
          (request_id (fst (step env c x)) # assigned_ids env (fst (step env c x)) xs)" .
  with le show ?case by (auto simp add: Let_def)
qed

lemma sent_ids_increase:
  "sorted_wrt (<) (request_id c # request_ids (sends (snd (run env c xs))))
   \<and> request_id c \<le> request_id (fst (run env c xs))"
proof (induction xs arbitrary: c)
  case Nil
  show ?case by simp
next
  case (Cons x xs)
  obtain c1 ev1 where st: "step env c x = (c1, ev1)" by (cases "step env c x") auto
  obtain c2 ev2 where rn: "run env c1 xs = (c2, ev2)" by (cases "run env c1 xs") auto
  from step_ids [of c env x] st
  have a: "request_id c \<le> request_id c1"
    and b: "request_ids (sends ev1) = []
            \<or> request_ids (sends ev1) = [request_id c1] \<and> request_id c < request_id c1"
    by simp_all
  from Cons.IH [of c1] rn
  have ih: "sorted_wrt (<) (request_id c1 # request_ids (sends ev2))"
    and ih2: "request_id c1 \<le> request_id c2" by simp_all
  from a b ih ih2 st rn show ?case
    by (auto simp add: sends_append request_ids_append)
qed

text \<open>
  A call of \<open>send_request\<close> that runs its statements with no other call in between
  is the \<open>send_request\<close> that \<open>step\<close> takes.
\<close>

lemma send_request_statements:
  "interleave c [start_send_request r h eh] [0, 0, 0, 0, 0] =
     (fst (send_request c r h eh), fst (snd (send_request c r h eh)),
      [(start_send_request r h eh)\<lparr>call_pc := AtReturn\<rparr>])"
  by (cases eh)
     (simp_all add: start_send_request_def send_request_statement_def send_request_def
        send_payload_def Let_def)

text \<open>
  C5. The claim is that no two requests ever share an id, and its source says so for
  calls from one or more threads. \<open>send_request\<close> increments the counter and reads it
  again, twice, under no lock: when a second call increments the counter between the
  increment and the reads of a first, both requests are sent with the id 2, both
  handlers are recorded under 2, and no request carries the id 1.
\<close>

theorem request_ids_overlapping_counterexample:
  "request_ids (sends (fst (snd (interleave new_client
       [start_send_request (Request ''initialize'' JNull) (returning ''a'') None,
        start_send_request (Request ''shutdown'' JNull) (returning ''b'') None]
       [0, 1, 0, 0, 0, 0, 1, 1, 1, 1])))) = [2, 2]
   \<and> \<not> distinct (request_ids (sends (fst (snd (interleave new_client
       [start_send_request (Request ''initialize'' JNull) (returning ''a'') None,
        start_send_request (Request ''shutdown'' JNull) (returning ''b'') None]
       [0, 1, 0, 0, 0, 0, 1, 1, 1, 1])))))
   \<and> map call_pc (snd (snd (interleave new_client
       [start_send_request (Request ''initialize'' JNull) (returning ''a'') None,
        start_send_request (Request ''shutdown'' JNull) (returning ''b'') None]
       [0, 1, 0, 0, 0, 0, 1, 1, 1, 1]))) = [AtReturn, AtReturn]"
  by (simp add: new_client_def Client_def start_send_request_def send_request_statement_def
        send_payload_def)

text \<open>
  C5, as the code has it. For every sequence of calls on one client in which each call
  returns before the next begins (\<open>send_request\<close> and \<open>execute_request\<close> in any mix,
  with anything else the client offers in between), the ids the calls are assigned
  are strictly increasing, so no two are equal and none is used again; the same
  holds of the ids in the requests that reach the transport.
\<close>

theorem request_ids_unique_increasing:
  "sorted_wrt (<) (assigned_ids env c xs) \<and> distinct (assigned_ids env c xs)
   \<and> sorted_wrt (<) (request_ids (sends (snd (run env c xs))))
   \<and> distinct (request_ids (sends (snd (run env c xs))))"
proof -
  from assigned_ids_increase [of c env xs]
  have a: "sorted_wrt (<) (assigned_ids env c xs)" by simp
  from sent_ids_increase [of c env xs]
  have b: "sorted_wrt (<) (request_ids (sends (snd (run env c xs))))" by simp
  from a b show ?thesis by (simp add: strict_sorted_iff)
qed

theorem request_ids_unique_increasing_witness:
  \<open>assigned_ids sample_env new_client
     [SendRequest (Request ''initialize'' JNull) (returning ''h'') None,
      ExecuteRequest (Request ''textDocument/hover'' JNull) DEFAULT_SYNC_REQUEST_TIMEOUT []
        [''{"id": 2, "result": true}''],
      OnTransportClosed,
      SendRequest (Request ''shutdown'' JNull) (returning ''h'') None] = [1, 2, 3]
   \<and> request_ids (sends (snd (run sample_env new_client
     [SendRequest (Request ''initialize'' JNull) (returning ''h'') None,
      ExecuteRequest (Request ''textDocument/hover'' JNull) DEFAULT_SYNC_REQUEST_TIMEOUT []
        [''{"id": 2, "result": true}''],
      OnTransportClosed,
      SendRequest (Request ''shutdown'' JNull) (returning ''h'') None]))) = [1, 2]
   \<and> sorted_wrt (<) [1, 2, 3 :: int] \<and> distinct [1, 2, 3 :: int]\<close>
proof -
  have a: \<open>assigned_ids sample_env new_client
     [SendRequest (Request ''initialize'' JNull) (returning ''h'') None,
      ExecuteRequest (Request ''textDocument/hover'' JNull) DEFAULT_SYNC_REQUEST_TIMEOUT []
        [''{"id": 2, "result": true}''],
      OnTransportClosed,
      SendRequest (Request ''shutdown'' JNull) (returning ''h'') None] = [1, 2, 3]\<close>
    by (simp add: new_client_def Client_def sample_env_def sample_loads_def Let_def
          send_request_def send_payload_def execute_request_def wait_for_def
          DEFAULT_SYNC_REQUEST_TIMEOUT_def receive_payload_def route_def
          response_handler_def on_transport_closed_def handle_transport_failure_def
          display_def)
  have b: \<open>request_ids (sends (snd (run sample_env new_client
     [SendRequest (Request ''initialize'' JNull) (returning ''h'') None,
      ExecuteRequest (Request ''textDocument/hover'' JNull) DEFAULT_SYNC_REQUEST_TIMEOUT []
        [''{"id": 2, "result": true}''],
      OnTransportClosed,
      SendRequest (Request ''shutdown'' JNull) (returning ''h'') None]))) = [1, 2]\<close>
    by (simp add: new_client_def Client_def sample_env_def sample_loads_def Let_def
          send_request_def send_payload_def execute_request_def wait_for_def
          DEFAULT_SYNC_REQUEST_TIMEOUT_def receive_payload_def route_def
          response_handler_def on_transport_closed_def handle_transport_failure_def
          display_def)
  from request_ids_unique_increasing [of sample_env new_client
     \<open>[SendRequest (Request ''initialize'' JNull) (returning ''h'') None,
      ExecuteRequest (Request ''textDocument/hover'' JNull) DEFAULT_SYNC_REQUEST_TIMEOUT []
        [''{"id": 2, "result": true}''],
      OnTransportClosed,
      SendRequest (Request ''shutdown'' JNull) (returning ''h'') None]\<close>] a b
  show ?thesis by simp
qed

subsection \<open>A synchronous request that times out\<close>

text \<open>
  A message that does not answer an id leaves the sync-result table as it was at that
  id.
\<close>

lemma response_handler_sync:
  assumes "\<not> (\<exists>kvs idv. r = JObject kvs \<and> map_of kvs ''id'' = Some idv
                  \<and> py_int env idv = Inr k)"
  shows "sync_request_results (fst (response_handler env c r)) k = sync_request_results c k"
  using assms
  by (auto simp add: response_handler_def Let_def
        split: sum.splits json.splits option.splits prod.splits)

lemma route_sync:
  assumes "\<not> (\<exists>kvs idv. p = JObject kvs \<and> map_of kvs ''id'' = Some idv
                  \<and> py_int env idv = Inr k)"
  shows "sync_request_results (fst (route env c p)) k = sync_request_results c k"
  using assms response_handler_sync [of p env k c]
  by (simp add: route_def handle_frame split: sum.splits bool.splits)

lemma receive_payload_sync:
  assumes "\<not> answers env m k"
  shows "sync_request_results (fst (receive_payload env c m)) k = sync_request_results c k"
proof (cases "json_loads env m")
  case (Inl e)
  then show ?thesis by (simp add: receive_payload_def)
next
  case (Inr p)
  with assms
  have "\<not> (\<exists>kvs idv. p = JObject kvs \<and> map_of kvs ''id'' = Some idv
               \<and> py_int env idv = Inr k)"
    by (auto simp add: answers_def)
  from route_sync [OF this, of c]
  have "sync_request_results (fst (route env c p)) k = sync_request_results c k" .
  with Inr show ?thesis
    by (cases "route env c p") (auto simp add: receive_payload_def split: sum.splits)
qed

lemma deliver_sync:
  "\<forall>m \<in> set ms. \<not> answers env m k \<Longrightarrow>
     sync_request_results (fst (deliver env c ms)) k = sync_request_results c k"
proof (induction ms arbitrary: c)
  case Nil
  show ?case by simp
next
  case (Cons m ms)
  from Cons.prems have a: "\<not> answers env m k" and b: "\<forall>m \<in> set ms. \<not> answers env m k"
    by simp_all
  from receive_payload_sync [OF a, of c] Cons.IH [OF b, of "fst (receive_payload env c m)"]
  show ?case by (simp add: case_prod_beta)
qed

text \<open>
  C6. The claim is that an \<open>execute_request\<close> whose matching response does not arrive
  within the timeout returns \<open>None\<close> and never raises. Three calls during which no
  message arrives at all: on a client to which the server has sent a result under
  id 1 before any request, the first synchronous request is given id 1 and returns
  that result, 5; with the timeout \<open>inf\<close> the wait raises \<open>OverflowError\<close>, which the
  method's \<open>except KeyError\<close> does not catch; with the timeout \<open>nan\<close> the wait never
  times out and the call does not return.
\<close>

theorem execute_request_timeout_counterexample:
  "sync_request_results stale_client 1 = Some (JInt 5)
   \<and> request_id stale_client = 0
   \<and> snd (snd (execute_request sample_env stale_client (Request ''textDocument/hover'' JNull)
        DEFAULT_SYNC_REQUEST_TIMEOUT [] [])) = Some (Inr (JInt 5))
   \<and> snd (snd (execute_request sample_env new_client (Request ''textDocument/hover'' JNull)
        (Infinity False) [] [])) = Some (Inl OverflowError)
   \<and> snd (snd (execute_request sample_env new_client (Request ''textDocument/hover'' JNull)
        NaN [] [])) = None"
  by (simp add: stale_client_def new_client_def Client_def sample_settings_def sample_env_def
        sample_loads_def receive_payload_def route_def response_handler_def
        execute_request_def wait_for_def send_payload_def DEFAULT_SYNC_REQUEST_TIMEOUT_def
        Let_def)

text \<open>
  C6, as the code has it. For every \<open>execute_request\<close> on an attached transport with a
  timeout that is a number not above \<open>threading.TIMEOUT_MAX\<close> or is \<open>-inf\<close> (the default
  of 1 second is such a timeout wherever \<open>TIMEOUT_MAX\<close> is at least 1), made when no
  result is stored under the id the call is given, and during which no message the
  delivery thread handles carries that id: the request is sent under that id, the
  timeout is the last thing logged, and the call returns \<open>None\<close> to its caller and
  raises nothing.
\<close>

theorem execute_request_timeout:
  assumes "transport c \<noteq> None"
      and "classify_timeout env timeout = Bounded"
      and "sync_request_results c (request_id c + 1) = None"
      and "\<forall>m \<in> set (early @ arrivals). \<not> answers env m (request_id c + 1)"
  shows "snd (snd (execute_request env c r timeout early arrivals)) = Some (Inr JNull)
       \<and> sends (fst (snd (execute_request env c r timeout early arrivals))) =
           [RequestPayload r (request_id c + 1)]
       \<and> last (fst (snd (execute_request env c r timeout early arrivals))) =
           Debug [Arg (JString ''timeout on''), Arg (JString (request_method r))]
       \<and> (1 \<le> timeout_max env \<longrightarrow>
            classify_timeout env DEFAULT_SYNC_REQUEST_TIMEOUT = Bounded)"
proof -
  let ?c1 = "c\<lparr>request_id := request_id c + 1\<rparr>"
  let ?c2 = "fst (deliver env ?c1 early)"
  let ?c3 = "fst (deliver env ?c2 arrivals)"
  from assms(4) have e: "\<forall>m \<in> set early. \<not> answers env m (request_id c + 1)"
    and a: "\<forall>m \<in> set arrivals. \<not> answers env m (request_id c + 1)" by simp_all
  from deliver_sync [OF e, of ?c1] assms(3)
  have s2: "sync_request_results ?c2 (request_id c + 1) = None" by simp
  from deliver_sync [OF a, of ?c2] s2
  have s3: "sync_request_results ?c3 (request_id c + 1) = None" by simp
  from s2 s3 assms(2)
  have w: "wait_for env ?c2 (request_id c + 1) timeout arrivals =
             (?c3, snd (deliver env ?c2 arrivals), Some (Inr False))"
    by (simp add: wait_for_def case_prod_beta)
  from deliver_frame [of env ?c1 early] deliver_frame [of env ?c2 arrivals]
  have f: "sends (snd (deliver env ?c1 early)) = []"
          "sends (snd (deliver env ?c2 arrivals)) = []" by simp_all
  from assms(1) w s3 f show ?thesis
    by (simp add: execute_request_def Let_def case_prod_beta send_payload_def sends_append
          DEFAULT_SYNC_REQUEST_TIMEOUT_def)
qed

theorem execute_request_timeout_witness:
  \<open>transport new_client \<noteq> None
   \<and> classify_timeout sample_env DEFAULT_SYNC_REQUEST_TIMEOUT = Bounded
   \<and> sync_request_results new_client (request_id new_client + 1) = None
   \<and> \<not> answers sample_env ''not json'' (request_id new_client + 1)
   \<and> \<not> answers sample_env ''{"id": 2, "result": true}'' (request_id new_client + 1)
   \<and> snd (snd (execute_request sample_env new_client (Request ''textDocument/hover'' JNull)
        DEFAULT_SYNC_REQUEST_TIMEOUT [''not json''] [''{"id": 2, "result": true}''])) =
       Some (Inr JNull)
   \<and> sends (fst (snd (execute_request sample_env new_client
        (Request ''textDocument/hover'' JNull)
        DEFAULT_SYNC_REQUEST_TIMEOUT [''not json''] [''{"id": 2, "result": true}'']))) =
       [RequestPayload (Request ''textDocument/hover'' JNull) 1]\<close>
proof -
  have t: "transport new_client \<noteq> None"
    by (simp add: new_client_def Client_def)
  have k: "classify_timeout sample_env DEFAULT_SYNC_REQUEST_TIMEOUT = Bounded"
    by (simp add: DEFAULT_SYNC_REQUEST_TIMEOUT_def sample_env_def)
  have s: "sync_request_results new_client (request_id new_client + 1) = None"
    by (simp add: new_client_def Client_def)
  have n1: \<open>\<not> answers sample_env ''not json'' (request_id new_client + 1)\<close>
    and n2: \<open>\<not> answers sample_env ''{"id": 2, "result": true}'' (request_id new_client + 1)\<close>
    by (simp_all add: answers_def sample_env_def sample_loads_def new_client_def Client_def)
  from n1 n2
  have a: \<open>\<forall>m \<in> set ([''not json''] @ [''{"id": 2, "result": true}'']).
            \<not> answers sample_env m (request_id new_client + 1)\<close> by simp
  from execute_request_timeout [OF t k s a, of "Request ''textDocument/hover'' JNull"]
       t k s n1 n2
  show ?thesis by (simp add: new_client_def Client_def)
qed

subsection \<open>Responses\<close>

text \<open>
  C2. The claim is that a response whose id has no pending entry is logged and dropped
  with no state changed, the sync-result table in particular. The code keeps pending
  entries for asynchronous requests only, so an id without an entry is how it
  recognises the answer to a synchronous request: on a fresh client, a response with
  the never-issued id 7 and a result is stored in the sync-result table under 7, and
  nothing is logged.
\<close>

theorem response_handler_unknown_id_counterexample:
  "response_handlers new_client 7 = None
   \<and> sync_request_results new_client 7 = None
   \<and> sync_request_results
        (fst (response_handler sample_env new_client
           (JObject [(''id'', JInt 7), (''result'', JInt 1)]))) 7 = Some (JInt 1)
   \<and> fst (response_handler sample_env new_client
        (JObject [(''id'', JInt 7), (''result'', JInt 1)])) \<noteq> new_client
   \<and> logged (fst (snd (response_handler sample_env new_client
        (JObject [(''id'', JInt 7), (''result'', JInt 1)])))) = []"
  by (simp add: new_client_def Client_def sample_settings_def response_handler_def)

text \<open>
  C2, as the code has it. A response whose id (one that \<open>int\<close> converts) has no pending
  entry calls no success or error handler and leaves the pending table and every
  field other than the sync-result table as they were. With a result and no error,
  the result is stored in the sync-result table under the id, the condition variable
  is notified and the call returns. With an error and no result, the state is
  unchanged and the error's \<open>message\<close> (\<open>None\<close> if it has none) goes to the
  error-display handler, whose outcome is the call's (an error that is not a dict
  raises \<open>AttributeError\<close> instead). With
  both or neither, the state is unchanged, the payload is logged as invalid and the
  call returns. Nothing else is logged but the result and the error when
  \<open>log_payloads\<close> is set: no entry says that the id is unknown.
\<close>

theorem response_handler_unknown_id:
  assumes "response = JObject kvs" and "map_of kvs ''id'' = Some idv"
      and "py_int env idv = Inr rid" and "response_handlers c rid = None"
  shows "(map_of kvs ''result'' = Some res \<and> map_of kvs ''error'' = None \<longrightarrow>
            response_handler env c response =
              (c\<lparr>sync_request_results := (sync_request_results c)(rid \<mapsto> res)\<rparr>,
               (if log_payloads (settings c) then [Debug [StrCat ''     '' res]] else [])
                 @ [CvarNotify],
               Inr ()))
       \<and> (map_of kvs ''result'' = None \<and> map_of kvs ''error'' = Some err \<longrightarrow>
            response_handler env c response =
              (c,
               (if log_payloads (settings c)
                then [Debug [StrCat ''     '' JNull], Debug [StrCat ''ERR: '' err]] else [])
                 @ (case err of
                      JObject ekvs \<Rightarrow>
                        fst (display c
                          (case map_of ekvs ''message'' of None \<Rightarrow> JNull | Some v \<Rightarrow> v))
                    | _ \<Rightarrow> []),
               (case err of
                  JObject ekvs \<Rightarrow>
                    snd (display c
                      (case map_of ekvs ''message'' of None \<Rightarrow> JNull | Some v \<Rightarrow> v))
                | _ \<Rightarrow> Inl AttributeError)))
       \<and> ((map_of kvs ''result'' = None) = (map_of kvs ''error'' = None) \<longrightarrow>
            response_handler env c response =
              (c,
               (if log_payloads (settings c)
                then [Debug [StrCat ''     ''
                        (case map_of kvs ''result'' of None \<Rightarrow> JNull | Some v \<Rightarrow> v)]]
                else [])
                 @ [Debug [Arg (JString ''invalid response payload''), Arg response]],
               Inr ()))"
proof -
  have idem: "c\<lparr>response_handlers := (response_handlers c)(rid := None)\<rparr> = c"
    using assms(4) by (simp add: fun_upd_idem)
  show ?thesis
    using assms
    by (auto simp add: response_handler_def Let_def idem
          split: sum.splits option.splits json.splits)
qed

theorem response_handler_unknown_id_witness:
  "map_of [(''id'', JInt 7), (''result'', JInt 1)] ''id'' = Some (JInt 7)
   \<and> py_int sample_env (JInt 7) = Inr 7
   \<and> response_handlers pending_client 7 = None
   \<and> response_handler sample_env pending_client
        (JObject [(''id'', JInt 7), (''result'', JInt 1)]) =
       (pending_client\<lparr>sync_request_results :=
          (sync_request_results pending_client)(7 \<mapsto> JInt 1)\<rparr>,
        [CvarNotify], Inr ())
   \<and> map_of [(''id'', JString ''7''),
              (''error'', JObject [(''message'', JString ''no'')])] ''id'' = Some (JString ''7'')
   \<and> py_int sample_env (JString ''7'') = Inr 7
   \<and> response_handler sample_env pending_client
        (JObject [(''id'', JString ''7''),
                  (''error'', JObject [(''message'', JString ''no'')])]) =
       (pending_client, [Debug [Arg (JString ''no'')]], Inr ())
   \<and> response_handler sample_env pending_client (JObject [(''id'', JInt 7)]) =
       (pending_client,
        [Debug [Arg (JString ''invalid response payload''), Arg (JObject [(''id'', JInt 7)])]],
        Inr ())"
proof -
  have p: "response_handlers pending_client 7 = None"
    by (simp add: pending_client_def new_client_def Client_def send_request_def Let_def)
  have d: "error_display_handler pending_client = None"
    by (simp add: pending_client_def new_client_def Client_def send_request_def Let_def)
  have l: "\<not> log_payloads (settings pending_client)"
    by (simp add: pending_client_def new_client_def Client_def sample_settings_def
          send_request_def Let_def)
  from response_handler_unknown_id
         [of "JObject [(''id'', JInt 7), (''result'', JInt 1)]"
             "[(''id'', JInt 7), (''result'', JInt 1)]" "JInt 7" sample_env 7
             pending_client "JInt 1" JNull]
       response_handler_unknown_id
         [of "JObject [(''id'', JString ''7''),
                       (''error'', JObject [(''message'', JString ''no'')])]"
             "[(''id'', JString ''7''), (''error'', JObject [(''message'', JString ''no'')])]"
             "JString ''7''" sample_env 7 pending_client JNull
             "JObject [(''message'', JString ''no'')]"]
       response_handler_unknown_id
         [of "JObject [(''id'', JInt 7)]" "[(''id'', JInt 7)]" "JInt 7" sample_env 7
             pending_client JNull JNull]
       p d l
  show ?thesis
    by (simp add: sample_env_def sample_int_of_str_def display_def)
qed

text \<open>
  C4. The claim is that a response with both or neither of \<open>result\<close> and \<open>error\<close> leaves
  all state unchanged, the pending entry under its id included. The code pops the
  entry before it looks at the two keys: a client with a request pending under id 1
  that receives \<open>{"id": 1}\<close> has no entry under 1 afterwards.
\<close>

theorem response_handler_invalid_counterexample:
  "response_handlers pending_client 1 = Some (Some (returning ''on_result''), None)
   \<and> response_handlers
        (fst (response_handler sample_env pending_client (JObject [(''id'', JInt 1)]))) 1 = None
   \<and> invocations
        (fst (snd (response_handler sample_env pending_client (JObject [(''id'', JInt 1)])))) = []"
  by (simp add: pending_client_def new_client_def Client_def sample_settings_def
        send_request_def Let_def response_handler_def)

text \<open>
  C4, as the code has it. A response with both or neither of \<open>result\<close> and \<open>error\<close> is
  logged as invalid and calls no handler; the pending entry under its id, if there is
  one, is removed, and every other field of the client is unchanged.
\<close>

theorem response_handler_invalid:
  assumes "response = JObject kvs" and "map_of kvs ''id'' = Some idv"
      and "py_int env idv = Inr rid"
      and "(map_of kvs ''result'' = None) = (map_of kvs ''error'' = None)"
  shows "response_handler env c response =
           (c\<lparr>response_handlers := (response_handlers c)(rid := None)\<rparr>,
            (if log_payloads (settings c)
             then [Debug [StrCat ''     ''
                     (case map_of kvs ''result'' of None \<Rightarrow> JNull | Some v \<Rightarrow> v)]]
             else [])
              @ [Debug [Arg (JString ''invalid response payload''), Arg response]],
            Inr ())"
  using assms
  by (auto simp add: response_handler_def Let_def split: option.splits prod.splits)

theorem response_handler_invalid_witness:
  "map_of [(''id'', JInt 1), (''result'', JInt 5), (''error'', JNull)] ''id'' = Some (JInt 1)
   \<and> py_int sample_env (JInt 1) = Inr 1
   \<and> response_handler sample_env pending_client
        (JObject [(''id'', JInt 1), (''result'', JInt 5), (''error'', JNull)]) =
       (pending_client\<lparr>response_handlers := (response_handlers pending_client)(1 := None)\<rparr>,
        [Debug [Arg (JString ''invalid response payload''),
                Arg (JObject [(''id'', JInt 1), (''result'', JInt 5), (''error'', JNull)])]],
        Inr ())"
proof -
  have l: "\<not> log_payloads (settings pending_client)"
    by (simp add: pending_client_def new_client_def Client_def sample_settings_def
          send_request_def Let_def)
  from response_handler_invalid
         [of "JObject [(''id'', JInt 1), (''result'', JInt 5), (''error'', JNull)]"
             "[(''id'', JInt 1), (''result'', JInt 5), (''error'', JNull)]" "JInt 1"
             sample_env 1 pending_client] l
  show ?thesis by simp
qed

subsection \<open>Dispatch to a registered handler\<close>

text \<open>
  C9. The claim is that the exception of a handler is logged with method and id
  context. The log entry the code writes is made of the kind of message and the
  method alone: the same server request under id 7 and under id 8 leaves the same
  log.
\<close>

theorem handle_log_counterexample:
  "logged (fst (snd (route sample_env configured_client (configuration_request 7)))) =
     [Debug [Arg (JString ''<--  workspace/configuration'')],
      ExceptionLog ''Error handling request workspace/configuration'' (Raised ''RuntimeError'')]
   \<and> logged (fst (snd (route sample_env configured_client (configuration_request 8)))) =
     [Debug [Arg (JString ''<--  workspace/configuration'')],
      ExceptionLog ''Error handling request workspace/configuration'' (Raised ''RuntimeError'')]
   \<and> invocations (fst (snd (route sample_env configured_client (configuration_request 7)))) =
     [(''configuration'', [JNull, JInt 7])]"
  by (simp add: configured_client_def configuration_request_def new_client_def Client_def
        sample_settings_def on_request_def route_def handle_def invoke_def raising_def)

text \<open>
  C9, as the code has it. For an incoming request or notification whose method is a
  str: when a handler is registered for the method and raises, \<open>handle\<close> has called
  it once and returns normally with the client's state (the pending table too)
  unchanged, and the last thing it logs is the exception under the kind of message
  and the method; when no
  handler is registered, it returns normally with the state unchanged, having called
  nothing and logged the message as unhandled.
\<close>

theorem handle_dispatch:
  assumes "py_get message ''method'' (JString []) = Inr (JString m)"
      and "py_get message ''params'' JNull = Inr ps"
  shows "(handlers m = Some h \<and> cb_run h (ps # args) = Some err \<longrightarrow>
            fst (handle c typestr message handlers args) = c
            \<and> snd (snd (handle c typestr message handlers args)) = Inr ()
            \<and> invocations (fst (snd (handle c typestr message handlers args))) =
                [(cb_name h, ps # args)]
            \<and> last (fst (snd (handle c typestr message handlers args))) =
                ExceptionLog (''Error handling '' @ typestr @ '' '' @ m) err)
       \<and> (handlers m = None \<longrightarrow>
            fst (handle c typestr message handlers args) = c
            \<and> snd (snd (handle c typestr message handlers args)) = Inr ()
            \<and> invocations (fst (snd (handle c typestr message handlers args))) = []
            \<and> last (fst (snd (handle c typestr message handlers args))) =
                Debug [Arg (JString (''Unhandled '' @ typestr)), Arg (JString m)])"
  using assms
  by (simp add: handle_def Let_def invoke_def invocations_append)

theorem handle_dispatch_witness:
  "py_get (configuration_request 7) ''method'' (JString []) =
     Inr (JString ''workspace/configuration'')
   \<and> py_get (configuration_request 7) ''params'' JNull = Inr JNull
   \<and> request_handlers configured_client ''workspace/configuration'' =
       Some (raising ''configuration'')
   \<and> cb_run (raising ''configuration'') [JNull, JInt 7] = Some (Raised ''RuntimeError'')
   \<and> fst (handle configured_client ''request'' (configuration_request 7)
        (request_handlers configured_client) [JInt 7]) = configured_client
   \<and> snd (snd (handle configured_client ''request'' (configuration_request 7)
        (request_handlers configured_client) [JInt 7])) = Inr ()
   \<and> notification_handlers configured_client ''workspace/configuration'' = None
   \<and> last (fst (snd (handle configured_client ''notification'' (configuration_request 7)
        (notification_handlers configured_client) []))) =
       Debug [Arg (JString ''Unhandled notification''), Arg (JString ''workspace/configuration'')]"
proof -
  have r: "request_handlers configured_client ''workspace/configuration'' =
             Some (raising ''configuration'')"
    by (simp add: configured_client_def on_request_def)
  have n: "notification_handlers configured_client ''workspace/configuration'' = None"
    by (simp add: configured_client_def on_request_def new_client_def Client_def)
  have e: "cb_run (raising ''configuration'') [JNull, JInt 7] = Some (Raised ''RuntimeError'')"
    by (simp add: raising_def)
  have m: "py_get (configuration_request 7) ''method'' (JString []) =
             Inr (JString ''workspace/configuration'')"
    and ps: "py_get (configuration_request 7) ''params'' JNull = Inr JNull"
    by (simp_all add: configuration_request_def)
  from handle_dispatch [OF m ps, of "request_handlers configured_client"
         "raising ''configuration''" "[JInt 7]" "Raised ''RuntimeError''" configured_client
         "''request''"]
       handle_dispatch [OF m ps, of "notification_handlers configured_client"
         "raising ''configuration''" "[]" "Raised ''RuntimeError''" configured_client
         "''notification''"]
       r n e m ps
  show ?thesis by simp
qed

end
